theory Spec2Isabelle
  imports Complex_Main
begin

section \<open>Values of the host language\<close>

text \<open>
  Exceptions raised by the code become values. \<open>ValidationError\<close> is the serializer
  framework's exception (raised in \<open>serializers.py\<close>), \<open>ModelValidationError\<close> is
  \<open>django.core.exceptions.ValidationError\<close> (raised in \<open>Booking.clean\<close>); the others
  are the exceptions of the object-relational mapper, of \<open>dict\<close>, of \<open>random.choice\<close>,
  of the division of integers and of the \<open>decimal\<close> module.
\<close>

datatype error =
    ValidationError string
  | ModelValidationError string
  | DoesNotExist
  | IntegrityError
  | KeyError string
  | IndexError
  | ZeroDivisionError
  | OverflowError
  | Overflow
  | InvalidOperation

subsection \<open>Decimal numbers\<close>

text \<open>
  A finite \<open>decimal.Decimal\<close> is a signed coefficient and an exponent; its value is
  \<open>dec_int * 10 ^ dec_exp\<close>. (The sign of a zero is not kept.) Arithmetic runs in
  the default context: 28 significant digits, rounding half to even, exponents between
  \<open>Emin\<close> and \<open>Emax\<close>, with the overflow and invalid-operation signals trapped.
\<close>

record decimal =
  dec_int :: int
  dec_exp :: int

definition dec_val :: "decimal \<Rightarrow> rat" where
  "dec_val d =
     (if 0 \<le> dec_exp d then of_int (dec_int d) * 10 ^ nat (dec_exp d)
      else of_int (dec_int d) / 10 ^ nat (- dec_exp d))"

definition default_prec :: nat where
  "default_prec = 28"

definition Emax :: int where
  "Emax = 999999"

definition Emin :: int where
  "Emin = - 999999"

definition Etiny :: "nat \<Rightarrow> int" where
  "Etiny p = Emin - int p + 1"

definition Etop :: "nat \<Rightarrow> int" where
  "Etop p = Emax - int p + 1"

text \<open>The number of decimal digits of a coefficient, \<open>len(str(n))\<close>.\<close>

fun ndigits :: "nat \<Rightarrow> nat" where
  "ndigits n = (if n < 10 then 1 else Suc (ndigits (n div 10)))"

declare ndigits.simps [simp del]

text \<open>
  Dropping the last \<open>k\<close> digits of a coefficient with rounding half to even: the
  kept digits are incremented when the dropped part is more than half a unit, or exactly
  half a unit with an odd last kept digit.
\<close>

definition round_half_even :: "nat \<Rightarrow> nat \<Rightarrow> nat" where
  "round_half_even c k =
     (let q = c div 10 ^ k; r = c mod 10 ^ k
      in if 10 ^ k < 2 * r \<or> (2 * r = 10 ^ k \<and> odd q) then q + 1 else q)"

text \<open>
  \<open>Decimal._fix\<close>: fit a result to a context of precision \<open>p\<close>. A result whose
  adjusted exponent exceeds \<open>Emax\<close> raises \<open>Overflow\<close>; one with too many digits
  (or below the subnormal limit) is rounded.
\<close>

definition dec_fix :: "nat \<Rightarrow> decimal \<Rightarrow> error + decimal" where
  "dec_fix p d =
     (let c = nat \<bar>dec_int d\<bar>; e = dec_exp d
      in if c = 0 then Inr \<lparr>dec_int = 0, dec_exp = min (max e (Etiny p)) Emax\<rparr>
         else
           let exp_min = int (ndigits c) + e - int p
           in if Etop p < exp_min then Inl Overflow
              else
                let exp_min = max exp_min (Etiny p)
                in if e < exp_min then
                     let coeff = round_half_even c (nat (exp_min - e));
                         carry = (p < ndigits coeff);
                         coeff = (if carry then coeff div 10 else coeff);
                         exp_min = (if carry then exp_min + 1 else exp_min)
                     in if Etop p < exp_min then Inl Overflow
                        else Inr \<lparr>dec_int = sgn (dec_int d) * int coeff, dec_exp = exp_min\<rparr>
                   else Inr d)"

text \<open>\<open>Decimal(n)\<close> for an integer \<open>n\<close> is exact, whatever the precision.\<close>

definition Decimal :: "int \<Rightarrow> decimal" where
  "Decimal n = \<lparr>dec_int = n, dec_exp = 0\<rparr>"

text \<open>\<open>a * b\<close>: the exact product, fitted to the default context.\<close>

definition decimal_mul :: "decimal \<Rightarrow> decimal \<Rightarrow> error + decimal" where
  "decimal_mul a b =
     dec_fix default_prec \<lparr>dec_int = dec_int a * dec_int b, dec_exp = dec_exp a + dec_exp b\<rparr>"

text \<open>\<open>Decimal._rescale\<close>: the number with exponent \<open>e\<close>, rounded if digits are lost.\<close>

definition rescale :: "decimal \<Rightarrow> int \<Rightarrow> decimal" where
  "rescale d e =
     (let c = nat \<bar>dec_int d\<bar>
      in if c = 0 then \<lparr>dec_int = 0, dec_exp = e\<rparr>
         else if e \<le> dec_exp d
           then \<lparr>dec_int = dec_int d * 10 ^ nat (dec_exp d - e), dec_exp = e\<rparr>
           else \<lparr>dec_int = sgn (dec_int d) * int (round_half_even c (nat (e - dec_exp d))),
                  dec_exp = e\<rparr>)"

text \<open>
  \<open>d.quantize(Decimal(1).scaleb(e))\<close> in a context of precision \<open>p\<close>: the number
  with exponent \<open>e\<close>, or \<open>InvalidOperation\<close> when it needs more than \<open>p\<close> digits.
\<close>

definition quantize :: "nat \<Rightarrow> decimal \<Rightarrow> int \<Rightarrow> error + decimal" where
  "quantize p d e =
     (let c = nat \<bar>dec_int d\<bar>
      in if \<not> (Etiny p \<le> e \<and> e \<le> Emax) then Inl InvalidOperation
         else if c = 0 then dec_fix p \<lparr>dec_int = 0, dec_exp = e\<rparr>
         else
           let adjusted = int (ndigits c) + dec_exp d - 1
           in if Emax < adjusted then Inl InvalidOperation
              else if int p < adjusted - e + 1 then Inl InvalidOperation
              else
                let ans = rescale d e; a = nat \<bar>dec_int ans\<bar>
                in if Emax < int (ndigits a) + dec_exp ans - 1 then Inl InvalidOperation
                   else if p < ndigits a then Inl InvalidOperation
                   else dec_fix p ans)"

text \<open>\<open>round(d, 2)\<close> on a decimal is \<open>d.quantize(Decimal('0.01'))\<close> in the default context.\<close>

definition round2 :: "decimal \<Rightarrow> error + decimal" where
  "round2 d = quantize default_prec d (- 2)"

subsection \<open>Integers, floats and true division\<close>

text \<open>
  A number is an \<open>int\<close> or a \<open>float\<close>. A finite float is a binary number of 53
  significant bits, \<open>m * 2 ^ e\<close> with \<open>m < 2 ^ 53\<close> and \<open>e\<close> not below \<open>-1074\<close>; it
  is held here as the rational it denotes. (The sign of a zero is not kept.)
\<close>

datatype number = PyInt int | PyFloat rat

text \<open>\<open>int.bit_length\<close>.\<close>

fun bit_length :: "nat \<Rightarrow> nat" where
  "bit_length n = (if n = 0 then 0 else Suc (bit_length (n div 2)))"

declare bit_length.simps [simp del]

text \<open>
  The integer \<open>k\<close> with \<open>2 ^ k \<le> a / b < 2 ^ (k + 1)\<close>, for positive \<open>a\<close> and
  \<open>b\<close>: the difference of the bit lengths, or one less.
\<close>

definition floor_log2 :: "nat \<Rightarrow> nat \<Rightarrow> int" where
  "floor_log2 a b =
     (let k = int (bit_length a) - int (bit_length b)
      in if a * 2 ^ nat (- k) < b * 2 ^ nat k then k - 1 else k)"

text \<open>The integer nearest to \<open>n / d\<close>, a tie going to the even one.\<close>

definition round_quotient :: "nat \<Rightarrow> nat \<Rightarrow> nat" where
  "round_quotient n d =
     (let q = n div d; r = n mod d
      in if d < 2 * r \<or> (2 * r = d \<and> odd q) then q + 1 else q)"

text \<open>\<open>math.ldexp(m, e)\<close>, the value \<open>m * 2 ^ e\<close>.\<close>

definition ldexp :: "nat \<Rightarrow> int \<Rightarrow> rat" where
  "ldexp m e = (if 0 \<le> e then of_nat m * 2 ^ nat e else of_nat m / 2 ^ nat (- e))"

text \<open>
  \<open>x / y\<close> on integers is the float nearest to the quotient (a tie going to the even
  significand): the quotient is rounded to an integer multiple of \<open>2 ^ e\<close>, where
  \<open>e\<close> leaves 53 significant bits and is not below \<open>-1074\<close>. A zero divisor raises
  \<open>ZeroDivisionError\<close>; a result of \<open>2 ^ 1024\<close> or more is too large for a float and
  raises \<open>OverflowError\<close>.
\<close>

definition truediv :: "int \<Rightarrow> int \<Rightarrow> error + rat" where
  "truediv x y =
     (if y = 0 then Inl ZeroDivisionError
      else if x = 0 then Inr 0
      else
        let a = nat \<bar>x\<bar>; b = nat \<bar>y\<bar>;
            e = max (floor_log2 a b - 52) (- 1074);
            m = round_quotient (a * 2 ^ nat (- e)) (b * 2 ^ nat e);
            v = ldexp m e
        in if 2 ^ 1024 \<le> v then Inl OverflowError
           else Inr (of_int (sgn x * sgn y) * v))"

subsection \<open>Dates\<close>

text \<open>
  A \<open>datetime.date\<close> is modelled by its proleptic Gregorian ordinal
  (\<open>date.toordinal()\<close>), which is what date comparison and subtraction work on:
  \<open>(b - a).days\<close> is the difference of the ordinals. Dates range from
  0001-01-01 (ordinal 1) to 9999-12-31 (ordinal 3652059).
\<close>

type_synonym date = int

definition valid_date :: "date \<Rightarrow> bool" where
  "valid_date d \<longleftrightarrow> 1 \<le> d \<and> d \<le> 3652059"

definition is_leap :: "int \<Rightarrow> bool" where
  "is_leap y \<longleftrightarrow> y mod 4 = 0 \<and> (y mod 100 \<noteq> 0 \<or> y mod 400 = 0)"

definition days_before_year :: "int \<Rightarrow> int" where
  "days_before_year year = (let y = year - 1 in y * 365 + y div 4 - y div 100 + y div 400)"

definition days_before_month :: "int \<Rightarrow> nat \<Rightarrow> int" where
  "days_before_month year month =
     [0, 31, 59, 90, 120, 151, 181, 212, 243, 273, 304, 334] ! (month - 1)
       + (if 2 < month \<and> is_leap year then 1 else 0)"

text \<open>The ordinal of a valid calendar date \<open>year-month-day\<close>.\<close>

definition ymd2ord :: "int \<Rightarrow> nat \<Rightarrow> int \<Rightarrow> date" where
  "ymd2ord year month day = days_before_year year + days_before_month year month + day"

section \<open>Models (models.py)\<close>

record listing =
  listing_pk :: int
  price_per_night :: decimal
  is_available :: bool

text \<open>\<open>Listing.total_price_for_nights\<close>.\<close>

definition total_price_for_nights :: "listing \<Rightarrow> int \<Rightarrow> error + decimal" where
  "total_price_for_nights self nights = decimal_mul (price_per_night self) (Decimal nights)"

datatype status = Pending | Confirmed | Cancelled | Completed

record booking =
  booking_pk :: int
  listing_id :: int
  guest_id :: int
  check_in_date :: date
  check_out_date :: date
  total_price :: decimal
  status :: status

text \<open>\<open>Booking.clean\<close>, the model-level validation hook.\<close>

definition clean :: "booking \<Rightarrow> error + unit" where
  "clean self =
     (if check_out_date self \<le> check_in_date self
      then Inl (ModelValidationError ''Check-out date must be after check-in date.'')
      else Inr ())"

text \<open>\<open>Booking.nights_booked\<close>.\<close>

definition nights_booked :: "booking \<Rightarrow> int" where
  "nights_booked self = check_out_date self - check_in_date self"

record review =
  review_listing_id :: int
  user_id :: int
  rating :: int
  comment :: string

section \<open>The stored state\<close>

text \<open>
  The tables the code queries and writes. \<open>listing_pk\<close> and \<open>booking_pk\<close> are the
  primary keys; \<open>booking_seq\<close> is the last key handed out by the bookings table.
  New rows are put in front, the order of \<open>ordering = ['-created_at']\<close>.
\<close>

record db =
  listings :: "listing list"
  bookings :: "booking list"
  reviews :: "review list"
  users :: "int list"
  booking_seq :: int

text \<open>\<open>Listing.objects.get(id=i)\<close>.\<close>

definition Listing_objects_get :: "db \<Rightarrow> int \<Rightarrow> error + listing" where
  "Listing_objects_get s i =
     (case find (\<lambda>l. listing_pk l = i) (listings s) of
        None \<Rightarrow> Inl DoesNotExist
      | Some l \<Rightarrow> Inr l)"

text \<open>
  A \<open>DecimalField(max_digits, decimal_places)\<close> prepares a value for the database by
  quantizing it to \<open>decimal_places\<close> in a context of precision \<open>max_digits\<close>.
\<close>

definition DecimalField :: "nat \<Rightarrow> nat \<Rightarrow> decimal \<Rightarrow> error + decimal" where
  "DecimalField max_digits decimal_places v = quantize max_digits v (- int decimal_places)"

text \<open>
  The keyword arguments that reach \<open>Booking.objects.create\<close>. In the serializer they
  are the validated fields \<open>listing_id\<close>, \<open>check_in_date\<close>, \<open>check_out_date\<close> and
  \<open>status\<close>, together with what the caller of \<open>save\<close> adds (\<open>listing\<close>,
  \<open>guest\<close>); a key that is absent is \<open>None\<close>.
\<close>

record booking_data =
  data_listing_id :: "int option"
  data_check_in_date :: "date option"
  data_check_out_date :: "date option"
  data_status :: "status option"
  data_listing :: "int option"
  data_guest :: "int option"

text \<open>
  \<open>Booking.objects.create(**kwargs, total_price=price)\<close>: the price is prepared for
  its column \<open>DecimalField(max_digits=10, decimal_places=2)\<close>; the listing, the guest
  and the dates are non-null columns, listing and guest are foreign keys, the status
  defaults to pending. A failure leaves the table as it was.
\<close>

definition Booking_objects_create ::
    "db \<Rightarrow> booking_data \<Rightarrow> decimal \<Rightarrow> (error + booking) \<times> db" where
  "Booking_objects_create s kwargs price =
     (case DecimalField 10 2 price of
        Inl e \<Rightarrow> (Inl e, s)
      | Inr tp \<Rightarrow>
          (case (data_listing kwargs, data_guest kwargs,
                 data_check_in_date kwargs, data_check_out_date kwargs) of
             (Some l, Some g, Some ci, Some co) \<Rightarrow>
               if l \<in> set (map listing_pk (listings s)) \<and> g \<in> set (users s) then
                 let b = \<lparr>booking_pk = booking_seq s + 1, listing_id = l, guest_id = g,
                          check_in_date = ci, check_out_date = co, total_price = tp,
                          status = (case data_status kwargs of None \<Rightarrow> Pending | Some st \<Rightarrow> st)\<rparr>
                 in (Inr b, s\<lparr>bookings := b # bookings s, booking_seq := booking_seq s + 1\<rparr>)
               else (Inl IntegrityError, s)
           | _ \<Rightarrow> (Inl IntegrityError, s)))"

text \<open>
  \<open>Review.objects.create\<close>: \<open>unique_together = ['listing', 'user']\<close> makes the table
  refuse a second row for the same pair.
\<close>

definition Review_objects_create ::
    "db \<Rightarrow> int \<Rightarrow> int \<Rightarrow> int \<Rightarrow> string \<Rightarrow> (error + review) \<times> db" where
  "Review_objects_create s l u r c =
     (if (\<exists>x \<in> set (reviews s). review_listing_id x = l \<and> user_id x = u) then (Inl IntegrityError, s)
      else if l \<in> set (map listing_pk (listings s)) \<and> u \<in> set (users s) then
        let x = \<lparr>review_listing_id = l, user_id = u, rating = r, comment = c\<rparr>
        in (Inr x, s\<lparr>reviews := x # reviews s\<rparr>)
      else (Inl IntegrityError, s))"

section \<open>Serializers (serializers.py)\<close>

subsection \<open>ListingSerializer\<close>

text \<open>
  \<open>ListingSerializer.get_average_rating\<close>; \<open>obj.reviews\<close> are the reviews of the
  listing. With reviews the result is a float, without them the integer \<open>0\<close>.
\<close>

definition get_average_rating :: "db \<Rightarrow> listing \<Rightarrow> error + number" where
  "get_average_rating s obj =
     (let obj_reviews = filter (\<lambda>r. review_listing_id r = listing_pk obj) (reviews s)
      in if obj_reviews \<noteq> []
         then (case truediv (sum_list (map rating obj_reviews)) (int (length obj_reviews)) of
                 Inl e \<Rightarrow> Inl e
               | Inr f \<Rightarrow> Inr (PyFloat f))
         else Inr (PyInt 0))"

subsection \<open>BookingSerializer\<close>

text \<open>
  \<open>BookingSerializer.validate\<close>. \<open>instance\<close> is the booking being updated, \<open>None\<close>
  on creation (\<open>exclude(pk=None)\<close> excludes no row). An integer is truthy when it is
  not zero; a date is always truthy.
\<close>

definition overlapping_bookings :: "db \<Rightarrow> booking option \<Rightarrow> int \<Rightarrow> date \<Rightarrow> date \<Rightarrow> booking list" where
  "overlapping_bookings s instance lid check_in check_out =
     filter (\<lambda>b. case instance of None \<Rightarrow> True | Some i \<Rightarrow> booking_pk b \<noteq> booking_pk i)
       (filter (\<lambda>b. listing_id b = lid
                   \<and> status b \<in> {Confirmed, Pending}
                   \<and> check_in_date b < check_out
                   \<and> check_out_date b > check_in)
          (bookings s))"

definition BookingSerializer_validate ::
    "db \<Rightarrow> booking option \<Rightarrow> booking_data \<Rightarrow> error + booking_data" where
  "BookingSerializer_validate s instance data =
     (case (data_listing_id data, data_check_in_date data, data_check_out_date data) of
        (Some lid, Some check_in, Some check_out) \<Rightarrow>
          if lid \<noteq> 0 then
            if overlapping_bookings s instance lid check_in check_out \<noteq> [] then
              Inl (ValidationError ''This listing is not available for the selected dates.'')
            else
              (case find (\<lambda>l. listing_pk l = lid \<and> is_available l) (listings s) of
                 None \<Rightarrow> Inl (ValidationError ''This listing is not available.'')
               | Some listing \<Rightarrow> Inr data)
          else Inr data
      | _ \<Rightarrow> Inr data)"

text \<open>
  \<open>BookingSerializer.create\<close>. \<open>pop('listing_id')\<close> takes the key out of the
  dictionary, and the rest goes to \<open>Booking.objects.create\<close>.
\<close>

definition BookingSerializer_create :: "db \<Rightarrow> booking_data \<Rightarrow> (error + booking) \<times> db" where
  "BookingSerializer_create s validated_data =
     (case data_listing_id validated_data of
        None \<Rightarrow> (Inl (KeyError ''listing_id''), s)
      | Some lid \<Rightarrow>
          (case Listing_objects_get s lid of
             Inl e \<Rightarrow> (Inl e, s)
           | Inr listing \<Rightarrow>
               (case data_check_out_date validated_data of
                  None \<Rightarrow> (Inl (KeyError ''check_out_date''), s)
                | Some check_out \<Rightarrow>
                    (case data_check_in_date validated_data of
                       None \<Rightarrow> (Inl (KeyError ''check_in_date''), s)
                     | Some check_in \<Rightarrow>
                         (case total_price_for_nights listing (check_out - check_in) of
                            Inl e \<Rightarrow> (Inl e, s)
                          | Inr price \<Rightarrow>
                              Booking_objects_create s
                                (validated_data\<lparr>data_listing_id := None\<rparr>) price)))))"

text \<open>
  The create path of a booking request: the serializer validates, and saves only what
  it has validated.
\<close>

definition createBooking :: "db \<Rightarrow> booking_data \<Rightarrow> (error + booking) \<times> db" where
  "createBooking s data =
     (case BookingSerializer_validate s None data of
        Inl e \<Rightarrow> (Inl e, s)
      | Inr validated_data \<Rightarrow> BookingSerializer_create s validated_data)"

subsection \<open>ReviewSerializer\<close>

record review_data =
  data_review_listing_id :: "int option"
  data_rating :: int
  data_comment :: string

text \<open>\<open>ReviewSerializer.validate\<close>; \<open>user\<close> is the user of the request.\<close>

definition ReviewSerializer_validate :: "db \<Rightarrow> int \<Rightarrow> review_data \<Rightarrow> error + review_data" where
  "ReviewSerializer_validate s user data =
     (case data_review_listing_id data of
        Some lid \<Rightarrow>
          if lid \<noteq> 0 \<and> filter (\<lambda>r. review_listing_id r = lid \<and> user_id r = user) (reviews s) \<noteq> []
          then Inl (ValidationError ''You have already reviewed this listing.'')
          else Inr data
      | None \<Rightarrow> Inr data)"

text \<open>\<open>ReviewSerializer.create\<close>.\<close>

definition ReviewSerializer_create :: "db \<Rightarrow> int \<Rightarrow> review_data \<Rightarrow> (error + review) \<times> db" where
  "ReviewSerializer_create s user validated_data =
     (case data_review_listing_id validated_data of
        None \<Rightarrow> (Inl (KeyError ''listing_id''), s)
      | Some lid \<Rightarrow>
          Review_objects_create s lid user (data_rating validated_data) (data_comment validated_data))"

definition createReview :: "db \<Rightarrow> int \<Rightarrow> review_data \<Rightarrow> (error + review) \<times> db" where
  "createReview s user data =
     (case ReviewSerializer_validate s user data of
        Inl e \<Rightarrow> (Inl e, s)
      | Inr validated_data \<Rightarrow> ReviewSerializer_create s user validated_data)"

section \<open>Seeding (management/commands/seed.py)\<close>

text \<open>
  The random draws of the command are inputs of the model: a natural number per draw,
  from which \<open>random.choice\<close> and \<open>random.randint\<close> pick a value of their range, so
  that every list of draws is a possible run.
\<close>

definition random_choice :: "'a list \<Rightarrow> nat \<Rightarrow> error + 'a" where
  "random_choice seq r = (if seq = [] then Inl IndexError else Inr (seq ! (r mod length seq)))"

definition random_randint :: "int \<Rightarrow> int \<Rightarrow> nat \<Rightarrow> int" where
  "random_randint a b r = a + int (r mod nat (b - a + 1))"

record booking_draw =
  draw_listing :: nat
  draw_start_date :: date
  draw_nights :: nat
  draw_guest :: nat
  draw_status :: nat

text \<open>
  The loop of \<open>Command._create_bookings\<close>, one draw per iteration. Each booking is
  written as soon as it is made; an exception ends the loop and keeps what was written.
\<close>

fun create_bookings_loop ::
    "listing list \<Rightarrow> int list \<Rightarrow> db \<Rightarrow> booking_draw list \<Rightarrow> error option \<times> db" where
  "create_bookings_loop available_listings all_users s [] = (None, s)"
| "create_bookings_loop available_listings all_users s (d # ds) =
     (case random_choice available_listings (draw_listing d) of
        Inl e \<Rightarrow> (Some e, s)
      | Inr listing \<Rightarrow>
          let start_date = draw_start_date d;
              nights = random_randint 2 14 (draw_nights d);
              end_date = start_date + nights
          in (case total_price_for_nights listing nights of
                Inl e \<Rightarrow> (Some e, s)
              | Inr price \<Rightarrow>
                  (case random_choice all_users (draw_guest d) of
                     Inl e \<Rightarrow> (Some e, s)
                   | Inr guest \<Rightarrow>
                       (case round2 price of
                          Inl e \<Rightarrow> (Some e, s)
                        | Inr rounded \<Rightarrow>
                            (case random_choice [Pending, Confirmed, Completed] (draw_status d) of
                               Inl e \<Rightarrow> (Some e, s)
                             | Inr st \<Rightarrow>
                                 (case Booking_objects_create s
                                         \<lparr>data_listing_id = None,
                                          data_check_in_date = Some start_date,
                                          data_check_out_date = Some end_date,
                                          data_status = Some st,
                                          data_listing = Some (listing_pk listing),
                                          data_guest = Some guest\<rparr> rounded of
                                    (Inl e, s') \<Rightarrow> (Some e, s')
                                  | (Inr b, s') \<Rightarrow>
                                      create_bookings_loop available_listings all_users s' ds))))))"

text \<open>\<open>Command._create_bookings\<close>; \<open>count\<close> is the number of draws.\<close>

definition create_bookings :: "db \<Rightarrow> booking_draw list \<Rightarrow> error option \<times> db" where
  "create_bookings s draws =
     (let available_listings = filter is_available (listings s);
          all_users = users s
      in if available_listings = [] then (None, s)
         else create_bookings_loop available_listings all_users s draws)"

section \<open>Properties of the stored bookings and reviews\<close>

text \<open>A booking blocks dates while it is pending or confirmed.\<close>

definition active :: "booking \<Rightarrow> bool" where
  "active b \<longleftrightarrow> status b = Pending \<or> status b = Confirmed"

text \<open>Two bookings overlap as half-open ranges of dates.\<close>

definition overlap :: "booking \<Rightarrow> booking \<Rightarrow> bool" where
  "overlap b1 b2 \<longleftrightarrow>
     check_in_date b1 < check_out_date b2 \<and> check_out_date b1 > check_in_date b2"

text \<open>
  The state the booking invariant forbids: two different bookings of one listing, both
  pending or confirmed, whose dates overlap.
\<close>

definition double_booked :: "db \<Rightarrow> bool" where
  "double_booked s \<longleftrightarrow>
     (\<exists>b1 \<in> set (bookings s). \<exists>b2 \<in> set (bookings s).
        b1 \<noteq> b2 \<and> listing_id b1 = listing_id b2 \<and> active b1 \<and> active b2 \<and> overlap b1 b2)"

text \<open>At most one review per pair of listing and user.\<close>

definition one_review_per_pair :: "db \<Rightarrow> bool" where
  "one_review_per_pair s \<longleftrightarrow> distinct (map (\<lambda>r. (review_listing_id r, user_id r)) (reviews s))"

text \<open>Primary keys of listings are unique.\<close>

definition listing_pks_unique :: "db \<Rightarrow> bool" where
  "listing_pks_unique s \<longleftrightarrow> distinct (map listing_pk (listings s))"

section \<open>Example data\<close>

text \<open>
  A listing at 100.00 a night, a confirmed booking of it from 2024-03-01 to 2024-03-05,
  and booking requests as the serializer receives them (the caller of \<open>save\<close> adds the
  listing and the guest).
\<close>

definition listing_100 :: listing where
  "listing_100 = \<lparr>listing_pk = 1, price_per_night = \<lparr>dec_int = 10000, dec_exp = - 2\<rparr>,
                   is_available = True\<rparr>"

definition booking_0301_0305 :: "status \<Rightarrow> booking" where
  "booking_0301_0305 st =
     \<lparr>booking_pk = 1, listing_id = 1, guest_id = 1,
      check_in_date = ymd2ord 2024 3 1, check_out_date = ymd2ord 2024 3 5,
      total_price = \<lparr>dec_int = 40000, dec_exp = - 2\<rparr>, status = st\<rparr>"

definition db_empty :: db where
  "db_empty = \<lparr>listings = [listing_100], bookings = [], reviews = [], users = [1, 2],
                booking_seq = 0\<rparr>"

definition db_booked :: "status \<Rightarrow> db" where
  "db_booked st = db_empty\<lparr>bookings := [booking_0301_0305 st], booking_seq := 1\<rparr>"

definition request :: "int \<Rightarrow> date \<Rightarrow> date \<Rightarrow> booking_data" where
  "request lid check_in check_out =
     \<lparr>data_listing_id = Some lid, data_check_in_date = Some check_in,
      data_check_out_date = Some check_out, data_status = None,
      data_listing = Some lid, data_guest = Some 2\<rparr>"

text \<open>
  The bookings the examples expect to be stored: three nights from 2024-03-01, and a
  stay whose check-out is four days before its check-in.
\<close>

definition booking_0301_0304 :: booking where
  "booking_0301_0304 =
     \<lparr>booking_pk = 1, listing_id = 1, guest_id = 2, check_in_date = ymd2ord 2024 3 1,
      check_out_date = ymd2ord 2024 3 4,
      total_price = \<lparr>dec_int = 30000, dec_exp = - 2\<rparr>, status = Pending\<rparr>"

definition booking_0305_0301 :: booking where
  "booking_0305_0301 =
     \<lparr>booking_pk = 1, listing_id = 1, guest_id = 2, check_in_date = ymd2ord 2024 3 5,
      check_out_date = ymd2ord 2024 3 1,
      total_price = \<lparr>dec_int = - 40000, dec_exp = - 2\<rparr>, status = Pending\<rparr>"

text \<open>The two bookings that the draws below make the seeding command store.\<close>

definition seeded_bookings :: "booking list" where
  "seeded_bookings =
     [\<lparr>booking_pk = 2, listing_id = 1, guest_id = 2, check_in_date = ymd2ord 2024 3 4,
       check_out_date = ymd2ord 2024 3 4 + 3,
       total_price = \<lparr>dec_int = 30000, dec_exp = - 2\<rparr>, status = Pending\<rparr>,
      \<lparr>booking_pk = 1, listing_id = 1, guest_id = 1, check_in_date = ymd2ord 2024 3 1,
       check_out_date = ymd2ord 2024 3 5,
       total_price = \<lparr>dec_int = 40000, dec_exp = - 2\<rparr>, status = Confirmed\<rparr>]"

text \<open>Reviews of the listing by three users, with ratings 5, 5 and 4, and by two, with 4 and 5.\<close>

definition db_reviewed_554 :: db where
  "db_reviewed_554 =
     db_empty\<lparr>users := [1, 2, 3],
              reviews := [\<lparr>review_listing_id = 1, user_id = 1, rating = 5, comment = ''fine''\<rparr>,
                          \<lparr>review_listing_id = 1, user_id = 2, rating = 5, comment = ''fine''\<rparr>,
                          \<lparr>review_listing_id = 1, user_id = 3, rating = 4, comment = ''good''\<rparr>]\<rparr>"

definition db_reviewed_45 :: db where
  "db_reviewed_45 =
     db_empty\<lparr>reviews := [\<lparr>review_listing_id = 1, user_id = 1, rating = 4, comment = ''good''\<rparr>,
                          \<lparr>review_listing_id = 1, user_id = 2, rating = 5, comment = ''fine''\<rparr>]\<rparr>"

text \<open>
  Two draws of the seeding command: the same listing twice, four nights from 2024-03-01
  as a confirmed booking, then three nights from 2024-03-04 as a pending one.
\<close>

definition seed_draws :: "booking_draw list" where
  "seed_draws =
     [\<lparr>draw_listing = 0, draw_start_date = ymd2ord 2024 3 1, draw_nights = 2, draw_guest = 0,
       draw_status = 1\<rparr>,
      \<lparr>draw_listing = 0, draw_start_date = ymd2ord 2024 3 4, draw_nights = 1, draw_guest = 1,
       draw_status = 0\<rparr>]"

text \<open>A sequence of review requests, each by a user, run one after the other.\<close>

fun review_attempts :: "db \<Rightarrow> (int \<times> review_data) list \<Rightarrow> db" where
  "review_attempts s [] = s"
| "review_attempts s ((user, data) # rest) =
     review_attempts (snd (createReview s user data)) rest"

section \<open>Evaluation of the examples\<close>

lemmas example_defs =
  db_empty_def db_booked_def listing_100_def booking_0301_0305_def request_def

lemmas decimal_defs =
  total_price_for_nights_def decimal_mul_def Decimal_def dec_fix_def DecimalField_def
  round2_def quantize_def rescale_def round_half_even_def default_prec_def
  Etop_def Etiny_def Emax_def Emin_def

lemmas date_defs = ymd2ord_def days_before_year_def days_before_month_def is_leap_def

lemma ymd_0301: "ymd2ord 2024 3 1 = 738946"
  by (simp add: date_defs)

lemma ymd_0304: "ymd2ord 2024 3 4 = 738949"
  by (simp add: date_defs)

lemma ymd_0305: "ymd2ord 2024 3 5 = 738950"
  by (simp add: date_defs)

lemma ymd_0308: "ymd2ord 2024 3 8 = 738953"
  by (simp add: date_defs)

lemmas ymd_simps = ymd_0301 ymd_0304 ymd_0305 ymd_0308

section \<open>The overlap check\<close>

lemma overlapping_bookings_nonempty:
  "overlapping_bookings s inst lid ci co \<noteq> [] \<longleftrightarrow>
     (\<exists>b \<in> set (bookings s). listing_id b = lid \<and> active b
        \<and> check_in_date b < co \<and> check_out_date b > ci
        \<and> (case inst of None \<Rightarrow> True | Some i \<Rightarrow> booking_pk b \<noteq> booking_pk i))"
  by (auto simp: overlapping_bookings_def active_def filter_empty_conv)

lemma validate_returns_data:
  "BookingSerializer_validate s inst d = Inr v \<Longrightarrow> v = d"
  by (auto simp: BookingSerializer_validate_def split: option.splits if_splits)

lemma boundary_request_accepted:
  "BookingSerializer_validate (db_booked Confirmed) None
      (request 1 (ymd2ord 2024 3 5) (ymd2ord 2024 3 8))
     = Inr (request 1 (ymd2ord 2024 3 5) (ymd2ord 2024 3 8))"
  by (simp add: BookingSerializer_validate_def overlapping_bookings_def example_defs ymd_simps)

lemma overlapping_request_rejected:
  "BookingSerializer_validate (db_booked Confirmed) None
      (request 1 (ymd2ord 2024 3 4) (ymd2ord 2024 3 8))
     = Inl (ValidationError ''This listing is not available for the selected dates.'')"
  by (simp add: BookingSerializer_validate_def overlapping_bookings_def example_defs ymd_simps)

text \<open>
  C1. For a request that names a listing and both dates, validation fails with the
  dates message exactly when some pending or confirmed booking of that listing (other
  than the one being updated) has \<open>check_in < checkOut\<close> and \<open>check_out > checkIn\<close>.
  Against a confirmed booking from 03-01 to 03-05, a request from 03-05 to 03-08 is
  accepted and a request from 03-04 to 03-08 is rejected.
\<close>

theorem overlap_check_half_open:
  "(data_listing_id d = Some lid \<and> lid \<noteq> 0 \<and> data_check_in_date d = Some ci
      \<and> data_check_out_date d = Some co \<longrightarrow>
    (BookingSerializer_validate s inst d
       = Inl (ValidationError ''This listing is not available for the selected dates.''))
    = (\<exists>b \<in> set (bookings s). listing_id b = lid
        \<and> (status b = Pending \<or> status b = Confirmed)
        \<and> check_in_date b < co \<and> check_out_date b > ci
        \<and> (case inst of None \<Rightarrow> True | Some i \<Rightarrow> booking_pk b \<noteq> booking_pk i)))
   \<and> BookingSerializer_validate (db_booked Confirmed) None
        (request 1 (ymd2ord 2024 3 5) (ymd2ord 2024 3 8))
       = Inr (request 1 (ymd2ord 2024 3 5) (ymd2ord 2024 3 8))
   \<and> BookingSerializer_validate (db_booked Confirmed) None
        (request 1 (ymd2ord 2024 3 4) (ymd2ord 2024 3 8))
       = Inl (ValidationError ''This listing is not available for the selected dates.'')"
proof (intro conjI impI)
  assume "data_listing_id d = Some lid \<and> lid \<noteq> 0 \<and> data_check_in_date d = Some ci
      \<and> data_check_out_date d = Some co"
  then show "(BookingSerializer_validate s inst d
       = Inl (ValidationError ''This listing is not available for the selected dates.''))
    = (\<exists>b \<in> set (bookings s). listing_id b = lid
        \<and> (status b = Pending \<or> status b = Confirmed)
        \<and> check_in_date b < co \<and> check_out_date b > ci
        \<and> (case inst of None \<Rightarrow> True | Some i \<Rightarrow> booking_pk b \<noteq> booking_pk i))"
    using overlapping_bookings_nonempty[of s inst lid ci co]
    by (auto simp: BookingSerializer_validate_def active_def split: option.splits)
qed (rule boundary_request_accepted overlapping_request_rejected)+

theorem overlap_check_half_open_witness:
  "(\<exists>b \<in> set (bookings (db_booked Confirmed)).
       listing_id b = 1 \<and> status b = Confirmed
       \<and> check_in_date b < ymd2ord 2024 3 8 \<and> check_out_date b > ymd2ord 2024 3 4)
   \<and> BookingSerializer_validate (db_booked Confirmed) None
        (request 1 (ymd2ord 2024 3 4) (ymd2ord 2024 3 8))
       = Inl (ValidationError ''This listing is not available for the selected dates.'')"
  using overlap_check_half_open
    [where d = "request 1 (ymd2ord 2024 3 4) (ymd2ord 2024 3 8)" and lid = 1
       and ci = "ymd2ord 2024 3 4" and co = "ymd2ord 2024 3 8"
       and s = "db_booked Confirmed" and inst = None]
  by (simp add: example_defs ymd_simps)

text \<open>
  C3. A booking that is neither pending nor confirmed (cancelled or completed) has no
  effect on validation: with it or without it in the table, every request gets the same
  answer, whatever the dates.
\<close>

theorem inactive_booking_never_blocks:
  "\<not> active b \<Longrightarrow>
   BookingSerializer_validate (s\<lparr>bookings := bs1 @ b # bs2\<rparr>) inst d
     = BookingSerializer_validate (s\<lparr>bookings := bs1 @ bs2\<rparr>) inst d"
  by (auto simp: BookingSerializer_validate_def overlapping_bookings_def active_def
      split: option.splits)

theorem inactive_booking_never_blocks_witness:
  "\<not> active (booking_0301_0305 Cancelled)
   \<and> overlap (booking_0301_0305 Cancelled)
        (booking_0301_0305 Cancelled\<lparr>check_in_date := ymd2ord 2024 3 4,
                                       check_out_date := ymd2ord 2024 3 8\<rparr>)
   \<and> BookingSerializer_validate (db_empty\<lparr>bookings := [] @ booking_0301_0305 Cancelled # []\<rparr>)
        None (request 1 (ymd2ord 2024 3 4) (ymd2ord 2024 3 8))
       = Inr (request 1 (ymd2ord 2024 3 4) (ymd2ord 2024 3 8))"
  using inactive_booking_never_blocks
    [where b = "booking_0301_0305 Cancelled" and s = db_empty and ?bs1.0 = "[]" and ?bs2.0 = "[]"
       and inst = None and d = "request 1 (ymd2ord 2024 3 4) (ymd2ord 2024 3 8)"]
  by (simp add: BookingSerializer_validate_def overlapping_bookings_def active_def overlap_def
      example_defs ymd_simps)

text \<open>
  C9. Validation checks overlap and availability only when the listing id is present
  and not zero and both dates are present; otherwise it returns the data as it came,
  whatever the state of the listing and its bookings.
\<close>

theorem validate_checks_only_complete_data:
  "\<not> ((\<exists>lid. data_listing_id d = Some lid \<and> lid \<noteq> 0)
       \<and> data_check_in_date d \<noteq> None \<and> data_check_out_date d \<noteq> None)
   \<Longrightarrow> BookingSerializer_validate s inst d = Inr d"
  by (auto simp: BookingSerializer_validate_def split: option.splits)

theorem validate_checks_only_complete_data_witness:
  "BookingSerializer_validate (db_booked Confirmed) None
      ((request 1 (ymd2ord 2024 3 4) (ymd2ord 2024 3 8))\<lparr>data_check_in_date := None\<rparr>)
     = Inr ((request 1 (ymd2ord 2024 3 4) (ymd2ord 2024 3 8))\<lparr>data_check_in_date := None\<rparr>)
   \<and> BookingSerializer_validate (db_booked Confirmed) None
        (request 1 (ymd2ord 2024 3 4) (ymd2ord 2024 3 8))
       = Inl (ValidationError ''This listing is not available for the selected dates.'')"
  using validate_checks_only_complete_data
    [where d = "(request 1 (ymd2ord 2024 3 4) (ymd2ord 2024 3 8))\<lparr>data_check_in_date := None\<rparr>"
       and s = "db_booked Confirmed" and inst = None]
    overlapping_request_rejected
  by (simp add: request_def)

section \<open>Failures of the create path\<close>

lemma createBooking_failure_keeps_state:
  "fst (createBooking s d) = Inl e \<Longrightarrow> snd (createBooking s d) = s"
  by (auto simp: createBooking_def BookingSerializer_create_def Booking_objects_create_def Let_def
      split: sum.splits option.splits if_splits prod.splits)

lemma find_unavailable:
  assumes "listing_pks_unique s" "l \<in> set (listings s)" "\<not> is_available l"
  shows "find (\<lambda>x. listing_pk x = listing_pk l \<and> is_available x) (listings s) = None"
proof -
  have "\<And>x. x \<in> set (listings s) \<Longrightarrow> listing_pk x = listing_pk l \<Longrightarrow> x = l"
    using assms(1,2) unfolding listing_pks_unique_def
    by (meson distinct_map inj_onD)
  with assms(3) show ?thesis by (auto simp: find_None_iff)
qed

text \<open>
  C4. A request for a listing whose availability flag is false, with both dates given
  (in any order), fails with one of the two availability errors of validation, and the
  state is what it was. The listing's key is the one the request names, keys being
  unique and not zero.
\<close>

theorem unavailable_listing_rejected:
  assumes "listing_pks_unique s" "l \<in> set (listings s)" "\<not> is_available l"
    and "listing_pk l \<noteq> 0"
    and "data_listing_id d = Some (listing_pk l)"
    and "data_check_in_date d = Some ci" "data_check_out_date d = Some co"
  shows "createBooking s d
           = (Inl (ValidationError ''This listing is not available for the selected dates.''), s)
       \<or> createBooking s d = (Inl (ValidationError ''This listing is not available.''), s)"
  using find_unavailable[OF assms(1-3)] assms(4-)
  by (simp add: createBooking_def BookingSerializer_validate_def)

theorem unavailable_listing_rejected_witness:
  "createBooking (db_empty\<lparr>listings := [listing_100\<lparr>is_available := False\<rparr>]\<rparr>)
      (request 1 (ymd2ord 2024 3 1) (ymd2ord 2024 3 4))
     = (Inl (ValidationError ''This listing is not available.''),
        db_empty\<lparr>listings := [listing_100\<lparr>is_available := False\<rparr>]\<rparr>)"
  using unavailable_listing_rejected
    [where s = "db_empty\<lparr>listings := [listing_100\<lparr>is_available := False\<rparr>]\<rparr>"
       and l = "listing_100\<lparr>is_available := False\<rparr>"
       and d = "request 1 (ymd2ord 2024 3 1) (ymd2ord 2024 3 4)"
       and ci = "ymd2ord 2024 3 1" and co = "ymd2ord 2024 3 4"]
  by (simp add: listing_pks_unique_def createBooking_def BookingSerializer_validate_def
      overlapping_bookings_def example_defs)

text \<open>
  C8. Validation only reads the state (it returns an error or the data, never a state).
  When it fails, the create path returns that error and the state unchanged; and
  whenever the create path returns a failure, of validation or of a later step, the
  state is the one it started from: no booking has been written.
\<close>

theorem failed_create_writes_nothing:
  "(BookingSerializer_validate s None d = Inl e \<longrightarrow> createBooking s d = (Inl e, s))
   \<and> (fst (createBooking s d) = Inl e \<longrightarrow> snd (createBooking s d) = s)"
  by (simp add: createBooking_failure_keeps_state) (simp add: createBooking_def)

theorem failed_create_writes_nothing_witness:
  "BookingSerializer_validate (db_booked Confirmed) None
      (request 1 (ymd2ord 2024 3 4) (ymd2ord 2024 3 8))
     = Inl (ValidationError ''This listing is not available for the selected dates.'')
   \<and> createBooking (db_booked Confirmed) (request 1 (ymd2ord 2024 3 4) (ymd2ord 2024 3 8))
     = (Inl (ValidationError ''This listing is not available for the selected dates.''),
        db_booked Confirmed)"
  using failed_create_writes_nothing
    [where s = "db_booked Confirmed" and d = "request 1 (ymd2ord 2024 3 4) (ymd2ord 2024 3 8)"
       and e = "ValidationError ''This listing is not available for the selected dates.''"]
    overlapping_request_rejected
  by simp

section \<open>The average rating\<close>

lemma bit_length_bounds: "0 < n \<Longrightarrow> 2 ^ (bit_length n - 1) \<le> n \<and> n < 2 ^ bit_length n"
proof (induction n rule: bit_length.induct)
  case (1 n)
  show ?case
  proof (cases "n div 2 = 0")
    case True
    with "1.prems" have "n = Suc 0" by (simp add: div_eq_0_iff)
    then show ?thesis by (simp add: bit_length.simps[of "Suc 0"] bit_length.simps[of 0])
  next
    case False
    with "1.IH" "1.prems" have ih: "2 ^ (bit_length (n div 2) - 1) \<le> n div 2"
        "n div 2 < 2 ^ bit_length (n div 2)"
      by simp_all
    have pos: "0 < bit_length (n div 2)"
      using False by (simp add: bit_length.simps[of "n div 2"])
    have bl: "bit_length n = Suc (bit_length (n div 2))"
      using "1.prems" by (simp add: bit_length.simps[of n])
    have "2 * 2 ^ (bit_length (n div 2) - 1) \<le> n" using ih(1) by linarith
    moreover have "2 * 2 ^ (bit_length (n div 2) - 1) = (2::nat) ^ bit_length (n div 2)"
      using pos by (cases "bit_length (n div 2)") simp_all
    moreover have "n < 2 * 2 ^ bit_length (n div 2)" using ih(2) by linarith
    ultimately show ?thesis by (simp add: bl)
  qed
qed

lemma bit_length_mono: "a \<le> b \<Longrightarrow> bit_length a \<le> bit_length b"
proof (induction a arbitrary: b rule: bit_length.induct)
  case (1 a)
  show ?case
  proof (cases "a = 0")
    case True
    then show ?thesis by (simp add: bit_length.simps[of 0])
  next
    case False
    then have "b \<noteq> 0" using "1.prems" by simp
    have "a div 2 \<le> b div 2" using "1.prems" by (rule div_le_mono)
    with "1.IH"[OF False] have "bit_length (a div 2) \<le> bit_length (b div 2)" by simp
    then show ?thesis using False \<open>b \<noteq> 0\<close>
      by (simp add: bit_length.simps[of a] bit_length.simps[of b])
  qed
qed

text \<open>For a quotient of at least one, \<open>floor_log2\<close> is the exponent of its leading bit.\<close>

lemma floor_log2_bounds:
  assumes "0 < b" "b \<le> a"
  shows "0 \<le> floor_log2 a b \<and> b * 2 ^ nat (floor_log2 a b) \<le> a
       \<and> a < b * 2 ^ nat (floor_log2 a b + 1)"
proof -
  define p where "p = bit_length a"
  define r where "r = bit_length b"
  have apos: "0 < a" using assms by simp
  have A: "2 ^ (p - 1) \<le> a" "a < 2 ^ p"
    using bit_length_bounds[OF apos] by (simp_all add: p_def)
  have B: "2 ^ (r - 1) \<le> b" "b < 2 ^ r"
    using bit_length_bounds[OF assms(1)] by (simp_all add: r_def)
  have rp: "r \<le> p" unfolding r_def p_def using assms(2) by (rule bit_length_mono)
  have rpos: "0 < r" using B(2) assms(1) by (cases r) simp_all
  define d where "d = p - r"
  have p: "p = r + d" using rp by (simp add: d_def)
  have k0: "int (bit_length a) - int (bit_length b) = int d"
    using rp by (simp add: d_def p_def r_def)
  show ?thesis
  proof (cases "a < b * 2 ^ d")
    case True
    then have fl: "floor_log2 a b = int d - 1" by (simp add: floor_log2_def k0 Let_def)
    have dpos: "0 < d" using True assms(2) by (cases d) simp_all
    then obtain d' where d: "d = Suc d'" by (cases d) simp_all
    have "b * 2 ^ d' < 2 ^ r * 2 ^ d'" using B(2) by simp
    also have "\<dots> = 2 ^ (p - 1)" using p d by (simp add: power_add)
    also have "\<dots> \<le> a" by (rule A(1))
    finally have "b * 2 ^ d' \<le> a" by simp
    then show ?thesis using True by (simp add: fl d nat_add_distrib)
  next
    case False
    then have fl: "floor_log2 a b = int d" by (simp add: floor_log2_def k0 Let_def)
    obtain r' where r: "r = Suc r'" using rpos by (cases r) simp_all
    have "a < 2 ^ p" by (rule A(2))
    also have "\<dots> = 2 ^ r' * 2 ^ (d + 1)" using p r by (simp add: power_add)
    also have "\<dots> \<le> b * 2 ^ (d + 1)" using B(1) r by simp
    finally have "a < b * 2 ^ (d + 1)" .
    then show ?thesis using False by (simp add: fl nat_add_distrib)
  qed
qed

lemma floor_log2_small:
  assumes "0 < b" "b \<le> a" "a \<le> 5 * b"
  shows "\<exists>j\<le>2. floor_log2 a b = int j \<and> b * 2 ^ j \<le> a"
proof -
  from floor_log2_bounds[OF assms(1,2)]
  have k: "0 \<le> floor_log2 a b" and lo: "b * 2 ^ nat (floor_log2 a b) \<le> a" by simp_all
  define j where "j = nat (floor_log2 a b)"
  have fl: "floor_log2 a b = int j" using k by (simp add: j_def)
  have "j \<le> 2"
  proof (rule ccontr)
    assume "\<not> j \<le> 2"
    then have "3 \<le> j" by simp
    then have "(2::nat) ^ 3 \<le> 2 ^ j" by (intro power_increasing) simp_all
    then have "b * 8 \<le> b * 2 ^ j" by simp
    also have "\<dots> \<le> a" using lo by (simp add: j_def)
    finally show False using assms(1,3) by simp
  qed
  moreover have "b * 2 ^ j \<le> a" using lo by (simp add: j_def)
  ultimately show ?thesis using fl by (intro exI[of _ j]) simp
qed

text \<open>Rounding a quotient to an integer moves it by at most a half.\<close>

lemma round_quotient_error:
  assumes "0 < d"
  shows "\<bar>(of_nat (round_quotient n d) :: rat) - of_nat n / of_nat d\<bar> \<le> 1 / 2"
proof -
  define q where "q = n div d"
  define r where "r = n mod d"
  have n: "n = q * d + r" by (simp add: q_def r_def)
  have r: "r < d" using assms by (simp add: r_def)
  have dpos: "(0::rat) < of_nat d" using assms by simp
  have quo: "(of_nat n :: rat) / of_nat d = of_nat q + of_nat r / of_nat d"
    using dpos by (simp add: n field_simps)
  show ?thesis
  proof (cases "d < 2 * r \<or> (2 * r = d \<and> odd q)")
    case True
    then have "round_quotient n d = q + 1"
      by (simp add: round_quotient_def q_def r_def Let_def)
    moreover have "(of_nat d :: rat) \<le> 2 * of_nat r" using True
      by (metis less_imp_le of_nat_le_iff of_nat_mult of_nat_numeral order_refl)
    moreover have "(of_nat r :: rat) < of_nat d" using r by simp
    ultimately show ?thesis using dpos by (simp add: quo field_simps abs_if)
  next
    case False
    then have "round_quotient n d = q"
      by (simp add: round_quotient_def q_def r_def Let_def)
    moreover have "2 * r \<le> d" using False by auto
    then have "2 * (of_nat r :: rat) \<le> of_nat d"
      by (metis of_nat_le_iff of_nat_mult of_nat_numeral)
    ultimately show ?thesis using dpos by (simp add: quo field_simps abs_if)
  qed
qed

text \<open>
  A quotient between 1 and 5 is rounded at its 53rd bit: the float is within
  \<open>2 ^ - 53\<close> of it, relatively.
\<close>

lemma truediv_rating_range:
  assumes "0 < b" "b \<le> a" "a \<le> 5 * b"
  shows "\<exists>j\<le>2. truediv (int a) (int b)
              = Inr (of_nat (round_quotient (a * 2 ^ (52 - j)) b) / 2 ^ (52 - j))
           \<and> \<bar>of_nat (round_quotient (a * 2 ^ (52 - j)) b) / 2 ^ (52 - j) - of_nat a / of_nat b\<bar>
               \<le> (of_nat a / of_nat b :: rat) / 2 ^ 53"
proof -
  from floor_log2_small[OF assms] obtain j where j: "j \<le> 2"
    and fl: "floor_log2 a b = int j" and lo: "b * 2 ^ j \<le> a" by blast
  define s where "s = 52 - j"
  define m where "m = round_quotient (a * 2 ^ s) b"
  have bpos: "(0::rat) < of_nat b" using assms(1) by simp
  have e: "max (int j - 52) (- 1074) = - int s" using j by (simp add: s_def)
  have err: "\<bar>(of_nat m :: rat) - of_nat (a * 2 ^ s) / of_nat b\<bar> \<le> 1 / 2"
    unfolding m_def by (rule round_quotient_error[OF assms(1)])
  define q :: rat where "q = of_nat a / of_nat b"
  have "(of_nat a :: rat) \<le> of_nat (5 * b)" using assms(3) by (simp only: of_nat_le_iff)
  then have q5: "q \<le> 5" using bpos by (simp add: q_def field_simps)
  have "(of_nat (b * 2 ^ j) :: rat) \<le> of_nat a" using lo by (simp only: of_nat_le_iff)
  then have qlo: "2 ^ j \<le> q" using bpos by (simp add: q_def field_simps)
  have err': "\<bar>of_nat m - q * 2 ^ s\<bar> \<le> 1 / 2" using err by (simp add: q_def)
  have "\<bar>of_nat m / 2 ^ s - q\<bar> = \<bar>of_nat m - q * 2 ^ s\<bar> / 2 ^ s"
    by (simp add: field_simps abs_divide flip: abs_div_pos)
  also have "\<dots> \<le> (1 / 2) / 2 ^ s" using err' by (intro divide_right_mono) simp_all
  also have "\<dots> = 2 ^ j / 2 ^ 53"
  proof -
    have p: "(2::rat) ^ 53 = 2 * 2 ^ s * 2 ^ j" using j
      by (simp add: s_def flip: power_add power_Suc)
    have "(1 / 2) / 2 ^ s = (2::rat) ^ j / (2 * 2 ^ s * 2 ^ j)"
      by (simp add: field_simps)
    also have "\<dots> = 2 ^ j / 2 ^ 53" using p by (simp only:)
    finally show ?thesis .
  qed
  also have "\<dots> \<le> q / 2 ^ 53" using qlo by (intro divide_right_mono) simp_all
  finally have acc: "\<bar>of_nat m / 2 ^ s - q\<bar> \<le> q / 2 ^ 53" .
  have "of_nat m / 2 ^ s - q \<le> \<bar>of_nat m / 2 ^ s - q\<bar>" by (rule abs_ge_self)
  also have "\<dots> \<le> q / 2 ^ 53" by (rule acc)
  also have "\<dots> \<le> q"
  proof -
    have "(0::rat) \<le> 2 ^ j" by simp
    then have "0 \<le> q" using qlo by (rule order_trans)
    then show ?thesis by (simp add: field_simps)
  qed
  finally have "of_nat m / 2 ^ s \<le> q + q" by simp
  also have "\<dots> < 2 ^ 1024" using q5 by simp
  finally have small: "\<not> (2::rat) ^ 1024 \<le> of_nat m / 2 ^ s" by simp
  have apos: "0 < a" using assms by simp
  have ld: "ldexp m (- int s) = of_nat m / 2 ^ s"
    by (simp add: ldexp_def s_def) (use j in auto)
  have "truediv (int a) (int b) = Inr (of_nat m / 2 ^ s)"
    using assms(1) apos small
    by (simp add: truediv_def Let_def fl e m_def[symmetric] ld)
  with acc j show ?thesis unfolding q_def m_def s_def by blast
qed

text \<open>A quotient that needs no more than 50 bits after the point is not rounded at all.\<close>

lemma truediv_exact:
  assumes "0 < b" "b \<le> a" "a \<le> 5 * b" "b dvd a * 2 ^ 50"
  shows "truediv (int a) (int b) = Inr (of_nat a / of_nat b)"
proof -
  from truediv_rating_range[OF assms(1-3)] obtain j where j: "j \<le> 2"
    and t: "truediv (int a) (int b)
              = Inr (of_nat (round_quotient (a * 2 ^ (52 - j)) b) / 2 ^ (52 - j))" by blast
  define s where "s = 52 - j"
  have "52 - j = 50 + (2 - j)" using j by simp
  then have "(2::nat) ^ s = 2 ^ 50 * 2 ^ (2 - j)" unfolding s_def by (simp only: power_add)
  then have "a * 2 ^ s = a * 2 ^ 50 * 2 ^ (2 - j)" by (simp only: mult.assoc)
  moreover have "b dvd a * 2 ^ 50 * 2 ^ (2 - j)" using assms(4) by (rule dvd_mult2)
  ultimately have dv: "b dvd a * 2 ^ s" by (simp only:)
  have "round_quotient (a * 2 ^ s) b = a * 2 ^ s div b"
    using dv assms(1) by (auto simp: round_quotient_def Let_def)
  moreover have "(of_nat (a * 2 ^ s div b) :: rat) = of_nat (a * 2 ^ s) / of_nat b"
  proof -
    from dv obtain k where k: "a * 2 ^ s = b * k" by (elim dvdE)
    have "(of_nat (a * 2 ^ s) :: rat) = of_nat b * of_nat k" by (simp only: k of_nat_mult)
    moreover have "a * 2 ^ s div b = k" using assms(1) by (simp add: k)
    ultimately show ?thesis using assms(1) by simp
  qed
  ultimately have "(of_nat (round_quotient (a * 2 ^ s) b) :: rat) / 2 ^ s = of_nat a / of_nat b"
    by simp
  with t show ?thesis by (simp add: s_def)
qed

text \<open>Ratings between 1 and 5 sum to between once and five times their number.\<close>

lemma rating_sum_bounds:
  "\<forall>r \<in> set rs. 1 \<le> rating r \<and> rating r \<le> 5 \<Longrightarrow>
   int (length rs) \<le> sum_list (map rating rs) \<and> sum_list (map rating rs) \<le> 5 * int (length rs)"
  by (induction rs) auto

lemma average_rating_in_range:
  assumes ne: "rs \<noteq> []" and rs: "rs = filter (\<lambda>r. review_listing_id r = listing_pk obj) (reviews s)"
    and range: "\<forall>r \<in> set rs. 1 \<le> rating r \<and> rating r \<le> 5"
  shows "\<exists>f. get_average_rating s obj = Inr (PyFloat f)
           \<and> \<bar>f - of_int (sum_list (map rating rs)) / of_nat (length rs)\<bar>
               \<le> (of_int (sum_list (map rating rs)) / of_nat (length rs)) / 2 ^ 53
           \<and> (int (length rs) dvd sum_list (map rating rs) * 2 ^ 50 \<longrightarrow>
                f = of_int (sum_list (map rating rs)) / of_nat (length rs))"
proof -
  define b where "b = length rs"
  define a where "a = nat (sum_list (map rating rs))"
  from rating_sum_bounds[OF range]
  have lo: "int b \<le> sum_list (map rating rs)" and hi: "sum_list (map rating rs) \<le> 5 * int b"
    by (simp_all add: b_def)
  have sum: "sum_list (map rating rs) = int a" using lo by (simp add: a_def)
  have b: "0 < b" using ne by (simp add: b_def)
  have ab: "b \<le> a" "a \<le> 5 * b" using lo hi by (simp_all add: a_def)
  from truediv_rating_range[OF b ab] obtain f where f: "truediv (int a) (int b) = Inr f"
    and acc: "\<bar>f - of_nat a / of_nat b\<bar> \<le> (of_nat a / of_nat b) / 2 ^ 53" by blast
  have res: "get_average_rating s obj = Inr (PyFloat f)"
    using ne f by (simp add: get_average_rating_def rs[symmetric] sum b_def[symmetric])
  have ex: "f = of_nat a / of_nat b" if "int b dvd int a * 2 ^ 50"
  proof -
    from that have "int b dvd int (a * 2 ^ 50)" by simp
    then have "b dvd a * 2 ^ 50" by (simp only: int_dvd_int_iff)
    from truediv_exact[OF b ab this] f show ?thesis by simp
  qed
  show ?thesis using res acc ex by (auto simp: sum b_def[symmetric])
qed

text \<open>The division is by the number of reviews, and only when there is one.\<close>

lemma truediv_no_zero_division: "y \<noteq> 0 \<Longrightarrow> truediv x y \<noteq> Inl ZeroDivisionError"
  unfolding truediv_def Let_def
  by (simp only: if_False split: if_split)
    (simp only: sum.inject sum.distinct error.distinct simp_thms)

lemma average_rating_no_zero_division: "get_average_rating s obj \<noteq> Inl ZeroDivisionError"
proof -
  define rs where "rs = filter (\<lambda>r. review_listing_id r = listing_pk obj) (reviews s)"
  define t where "t = truediv (sum_list (map rating rs)) (int (length rs))"
  have g: "get_average_rating s obj =
      (if rs \<noteq> [] then (case t of Inl e \<Rightarrow> Inl e | Inr f \<Rightarrow> Inr (PyFloat f))
       else Inr (PyInt 0))"
    unfolding get_average_rating_def Let_def rs_def t_def ..
  show ?thesis
  proof (cases "rs = []")
    case True
    then show ?thesis by (simp add: g)
  next
    case False
    then have "int (length rs) \<noteq> 0" by simp
    then have "t \<noteq> Inl ZeroDivisionError"
      unfolding t_def by (rule truediv_no_zero_division)
    then show ?thesis using False by (cases t) (simp_all add: g)
  qed
qed

lemma average_rating_554:
  "get_average_rating db_reviewed_554 listing_100 = Inr (PyFloat (5254199565265579 / 2 ^ 50))"
proof -
  have "floor_log2 14 3 = 2" by (simp add: floor_log2_def bit_length.simps)
  then have "truediv 14 3 = Inr (5254199565265579 / 2 ^ 50)"
    unfolding truediv_def Let_def
    by simp (simp add: ldexp_def round_quotient_def Let_def)
  then show ?thesis
    by (simp add: get_average_rating_def db_reviewed_554_def db_empty_def listing_100_def)
qed

text \<open>
  C10, as the code has it. Without reviews the average rating is the integer 0; the
  division is never by zero. With reviews it is the float quotient of the sum of the
  ratings by their number: for ratings from 1 to 5 it is within \<open>2 ^ - 53\<close> of the
  arithmetic mean, relatively, and it is the mean itself when the number of reviews
  divides \<open>2 ^ 50\<close> times the sum.
\<close>

theorem average_rating_is_rounded_mean:
  "(filter (\<lambda>r. review_listing_id r = listing_pk obj) (reviews s) = [] \<longrightarrow>
      get_average_rating s obj = Inr (PyInt 0))
   \<and> get_average_rating s obj \<noteq> Inl ZeroDivisionError
   \<and> (rs = filter (\<lambda>r. review_listing_id r = listing_pk obj) (reviews s) \<and> rs \<noteq> []
        \<and> (\<forall>r \<in> set rs. 1 \<le> rating r \<and> rating r \<le> 5) \<longrightarrow>
      (\<exists>f. get_average_rating s obj = Inr (PyFloat f)
         \<and> \<bar>f - of_int (sum_list (map rating rs)) / of_nat (length rs)\<bar>
             \<le> (of_int (sum_list (map rating rs)) / of_nat (length rs)) / 2 ^ 53
         \<and> (int (length rs) dvd sum_list (map rating rs) * 2 ^ 50 \<longrightarrow>
              f = of_int (sum_list (map rating rs)) / of_nat (length rs))))"
proof (intro conjI impI)
  assume "filter (\<lambda>r. review_listing_id r = listing_pk obj) (reviews s) = []"
  then show "get_average_rating s obj = Inr (PyInt 0)"
    by (simp add: get_average_rating_def)
next
  show "get_average_rating s obj \<noteq> Inl ZeroDivisionError"
    by (rule average_rating_no_zero_division)
next
  assume "rs = filter (\<lambda>r. review_listing_id r = listing_pk obj) (reviews s) \<and> rs \<noteq> []
        \<and> (\<forall>r \<in> set rs. 1 \<le> rating r \<and> rating r \<le> 5)"
  then show "\<exists>f. get_average_rating s obj = Inr (PyFloat f)
         \<and> \<bar>f - of_int (sum_list (map rating rs)) / of_nat (length rs)\<bar>
             \<le> (of_int (sum_list (map rating rs)) / of_nat (length rs)) / 2 ^ 53
         \<and> (int (length rs) dvd sum_list (map rating rs) * 2 ^ 50 \<longrightarrow>
              f = of_int (sum_list (map rating rs)) / of_nat (length rs))"
    using average_rating_in_range[of rs obj s] by blast
qed

theorem average_rating_is_rounded_mean_witness:
  "get_average_rating db_reviewed_45 listing_100 = Inr (PyFloat (9 / 2))
   \<and> get_average_rating db_empty listing_100 = Inr (PyInt 0)"
  using average_rating_is_rounded_mean
    [where s = db_reviewed_45 and obj = listing_100 and rs = "reviews db_reviewed_45"]
    average_rating_is_rounded_mean [where s = db_empty and obj = listing_100]
  by (auto simp: db_reviewed_45_def db_empty_def listing_100_def)

text \<open>
  C10 does not hold as an equation with the mean: for ratings 5, 5 and 4 the average
  rating is the float 4.666666666666667, which is \<open>5254199565265579 / 2 ^ 50\<close> and not
  \<open>14 / 3\<close>.
\<close>

theorem average_rating_not_exact_mean:
  "get_average_rating db_reviewed_554 listing_100 = Inr (PyFloat (5254199565265579 / 2 ^ 50))
   \<and> get_average_rating db_reviewed_554 listing_100 \<noteq> Inr (PyFloat (14 / 3))"
  by (simp add: average_rating_554)

section \<open>Prices\<close>

lemma ndigits_le: "0 < k \<Longrightarrow> n < 10 ^ k \<Longrightarrow> ndigits n \<le> k"
proof (induction n arbitrary: k rule: ndigits.induct)
  case (1 n)
  show ?case
  proof (cases "n < 10")
    case True
    then show ?thesis using "1.prems" by (simp add: ndigits.simps[of n])
  next
    case False
    then obtain j where k: "k = Suc j" and j: "0 < j"
      using "1.prems" by (cases k; cases "k - 1") auto
    have "n div 10 < 10 ^ j"
      using "1.prems"(2) k by (simp add: less_mult_imp_div_less mult.commute)
    with "1.IH"[OF False j] have "ndigits (n div 10) \<le> j" by simp
    then show ?thesis using False k by (simp add: ndigits.simps[of n])
  qed
qed

lemma nat_abs_less_power: "\<bar>c\<bar> < 10 ^ p \<Longrightarrow> nat \<bar>c :: int\<bar> < 10 ^ p"
  by (metis nat_less_iff abs_ge_zero of_nat_numeral of_nat_power)

text \<open>A number that fits the precision and the exponent range is left as it is.\<close>

lemma dec_fix_exact:
  assumes "0 < p" "\<bar>dec_int d\<bar> < 10 ^ p" "Etiny p \<le> dec_exp d" "dec_exp d \<le> Etop p"
  shows "dec_fix p d = Inr d"
proof (cases "dec_int d = 0")
  case True
  have "Etop p \<le> Emax" using assms(1) by (simp add: Etop_def)
  then have "min (max (dec_exp d) (Etiny p)) Emax = dec_exp d" using assms(3,4) by simp
  with True show ?thesis by (simp add: dec_fix_def)
next
  case False
  have nd: "ndigits (nat \<bar>dec_int d\<bar>) \<le> p"
    using assms(1) nat_abs_less_power[OF assms(2)] by (rule ndigits_le)
  define m where "m = int (ndigits (nat \<bar>dec_int d\<bar>)) + dec_exp d - int p"
  have a: "\<not> Etop p < m" using nd assms(4) by (simp add: m_def)
  have b: "\<not> dec_exp d < max m (Etiny p)" using nd assms(3) by (simp add: m_def)
  have c: "nat \<bar>dec_int d\<bar> \<noteq> 0" using False by simp
  show ?thesis unfolding dec_fix_def Let_def m_def[symmetric]
    by (simp only: a b c if_False)
qed

lemma total_price_for_nights_exact:
  assumes "\<bar>dec_int (price_per_night l) * n\<bar> < 10 ^ 28"
    and "- 1000026 \<le> dec_exp (price_per_night l)" "dec_exp (price_per_night l) \<le> 999972"
  shows "total_price_for_nights l n
           = Inr \<lparr>dec_int = dec_int (price_per_night l) * n, dec_exp = dec_exp (price_per_night l)\<rparr>"
  unfolding total_price_for_nights_def decimal_mul_def Decimal_def
  using assms
  by (intro dec_fix_exact[THEN trans])
    (simp_all add: default_prec_def Etiny_def Etop_def Emin_def Emax_def)

lemma dec_val_times_int:
  "dec_val \<lparr>dec_int = dec_int p * n, dec_exp = dec_exp p\<rparr> = dec_val p * of_int n"
  by (simp add: dec_val_def)

text \<open>A two-place amount of at most ten digits is stored as it is.\<close>

lemma DecimalField_exact:
  assumes "\<bar>c\<bar> < 10 ^ 10"
  shows "DecimalField 10 2 \<lparr>dec_int = c, dec_exp = - 2\<rparr> = Inr \<lparr>dec_int = c, dec_exp = - 2\<rparr>"
proof -
  let ?d = "\<lparr>dec_int = c, dec_exp = - 2\<rparr>"
  have fx: "dec_fix 10 ?d = Inr ?d"
    using assms by (intro dec_fix_exact) (simp_all add: Etiny_def Etop_def Emin_def Emax_def)
  show ?thesis
  proof (cases "c = 0")
    case True
    then show ?thesis
      using fx by (simp add: DecimalField_def quantize_def Etiny_def Emin_def Emax_def)
  next
    case False
    have nd: "ndigits (nat \<bar>c\<bar>) \<le> 10"
      using nat_abs_less_power[OF assms] by (intro ndigits_le) simp_all
    have rs: "rescale ?d (- 2) = ?d" using False by (simp add: rescale_def)
    show ?thesis using False nd fx
      by (simp add: DecimalField_def quantize_def Let_def rs Etiny_def Emin_def Emax_def)
  qed
qed

text \<open>
  The days between two dates times a price of at most ten digits stay far below the
  precision of the context.
\<close>

lemma nights_product_bound:
  assumes "valid_date ci" "valid_date co" "\<bar>c\<bar> < 10 ^ 10"
  shows "\<bar>c * (co - ci)\<bar> < 10 ^ 28"
proof -
  have "\<bar>co - ci\<bar> \<le> 10000000"
    using assms(1,2) unfolding valid_date_def by linarith
  then have n: "\<bar>co - ci\<bar> \<le> 10 ^ 7" by simp
  have "\<bar>c * (co - ci)\<bar> = \<bar>c\<bar> * \<bar>co - ci\<bar>" by (rule abs_mult)
  also have "\<dots> \<le> \<bar>c\<bar> * 10 ^ 7" using n by (intro mult_left_mono) simp_all
  also have "\<dots> < 10 ^ 10 * 10 ^ 7" using assms(3) by (intro mult_strict_right_mono) simp_all
  also have "\<dots> \<le> (10 :: int) ^ 28" by simp
  finally show ?thesis .
qed

lemma createBooking_total_price:
  assumes res: "createBooking s d = (Inr b, s')"
    and d: "data_listing_id d = Some lid" "data_check_in_date d = Some ci"
      "data_check_out_date d = Some co"
    and l: "find (\<lambda>l. listing_pk l = lid) (listings s) = Some l"
    and p: "dec_exp (price_per_night l) = - 2"
      "\<bar>dec_int (price_per_night l) * (co - ci)\<bar> < 10 ^ 10"
  shows "total_price b = \<lparr>dec_int = dec_int (price_per_night l) * (co - ci), dec_exp = - 2\<rparr>
       \<and> nights_booked b = co - ci \<and> bookings s' = b # bookings s"
proof -
  let ?t = "\<lparr>dec_int = dec_int (price_per_night l) * (co - ci), dec_exp = - 2\<rparr>"
  from res obtain v where v: "BookingSerializer_validate s None d = Inr v"
    and c: "BookingSerializer_create s v = (Inr b, s')"
    by (auto simp: createBooking_def split: sum.splits)
  from v have "v = d" by (rule validate_returns_data)
  have "\<bar>dec_int (price_per_night l) * (co - ci)\<bar> < 10 ^ 28"
    using p(2) by (rule less_trans) simp
  then have tp: "total_price_for_nights l (co - ci) = Inr ?t"
    using total_price_for_nights_exact[of l "co - ci"] p(1) by simp
  have df: "DecimalField 10 2 ?t = Inr ?t" using p(2) by (rule DecimalField_exact)
  from c show ?thesis
    unfolding \<open>v = d\<close> BookingSerializer_create_def Listing_objects_get_def
      Booking_objects_create_def
    by (auto simp: d l tp df Let_def nights_booked_def split: option.splits if_splits)
qed

lemma three_nights_at_100:
  "createBooking db_empty (request 1 (ymd2ord 2024 3 1) (ymd2ord 2024 3 4))
     = (Inr booking_0301_0304, db_empty\<lparr>bookings := [booking_0301_0304], booking_seq := 1\<rparr>)"
  by (simp add: createBooking_def BookingSerializer_validate_def overlapping_bookings_def
      BookingSerializer_create_def Listing_objects_get_def Booking_objects_create_def
      decimal_defs Let_def ndigits.simps example_defs booking_0301_0304_def ymd_simps)

text \<open>
  C5, as the code has it. The price for \<open>n\<close> nights is exactly the nightly price times
  \<open>n\<close> whenever the product of the price's coefficient and \<open>n\<close> has at most 28 digits
  (the price's exponent being in the range of the decimal context, as the two places of
  a stored price are); a longer product is rounded to 28 digits. The days between any
  two dates, at a two-place price of at most ten digits, are within that bound. A booking
  that the create
  path stores for a listing with a two-place price, its total within the ten digits
  of the column, has as total price exactly the nightly price times the days from
  check-in to check-out. At 100.00 a night, 2024-03-01 to 2024-03-04 is three nights
  and 300.00.
\<close>

theorem total_price_exact_within_precision:
  "(\<bar>dec_int (price_per_night l) * n\<bar> < 10 ^ 28
      \<and> - 1000026 \<le> dec_exp (price_per_night l) \<and> dec_exp (price_per_night l) \<le> 999972 \<longrightarrow>
    (\<exists>r. total_price_for_nights l n = Inr r
        \<and> r = \<lparr>dec_int = dec_int (price_per_night l) * n, dec_exp = dec_exp (price_per_night l)\<rparr>
        \<and> dec_val r = dec_val (price_per_night l) * of_int n))
   \<and> (valid_date d1 \<and> valid_date d2 \<and> \<bar>dec_int (price_per_night l)\<bar> < 10 ^ 10
        \<and> dec_exp (price_per_night l) = - 2 \<longrightarrow>
      total_price_for_nights l (d2 - d1)
        = Inr \<lparr>dec_int = dec_int (price_per_night l) * (d2 - d1), dec_exp = - 2\<rparr>)
   \<and> (createBooking s d = (Inr b, s')
        \<and> data_listing_id d = Some lid \<and> data_check_in_date d = Some ci
        \<and> data_check_out_date d = Some co
        \<and> find (\<lambda>x. listing_pk x = lid) (listings s) = Some l'
        \<and> dec_exp (price_per_night l') = - 2
        \<and> \<bar>dec_int (price_per_night l') * (co - ci)\<bar> < 10 ^ 10 \<longrightarrow>
      nights_booked b = co - ci
        \<and> total_price b = \<lparr>dec_int = dec_int (price_per_night l') * (co - ci), dec_exp = - 2\<rparr>
        \<and> dec_val (total_price b) = dec_val (price_per_night l') * of_int (co - ci))
   \<and> ymd2ord 2024 3 4 - ymd2ord 2024 3 1 = 3
   \<and> fst (createBooking db_empty (request 1 (ymd2ord 2024 3 1) (ymd2ord 2024 3 4)))
       = Inr booking_0301_0304
   \<and> total_price booking_0301_0304 = \<lparr>dec_int = 30000, dec_exp = - 2\<rparr>"
proof (intro conjI impI)
  assume "\<bar>dec_int (price_per_night l) * n\<bar> < 10 ^ 28
      \<and> - 1000026 \<le> dec_exp (price_per_night l) \<and> dec_exp (price_per_night l) \<le> 999972"
  then show "\<exists>r. total_price_for_nights l n = Inr r
        \<and> r = \<lparr>dec_int = dec_int (price_per_night l) * n, dec_exp = dec_exp (price_per_night l)\<rparr>
        \<and> dec_val r = dec_val (price_per_night l) * of_int n"
    by (simp add: total_price_for_nights_exact dec_val_times_int)
next
  assume "valid_date d1 \<and> valid_date d2 \<and> \<bar>dec_int (price_per_night l)\<bar> < 10 ^ 10
        \<and> dec_exp (price_per_night l) = - 2"
  then show "total_price_for_nights l (d2 - d1)
        = Inr \<lparr>dec_int = dec_int (price_per_night l) * (d2 - d1), dec_exp = - 2\<rparr>"
    using total_price_for_nights_exact[of l "d2 - d1"]
      nights_product_bound[of d1 d2 "dec_int (price_per_night l)"]
    by simp
next
  assume a: "createBooking s d = (Inr b, s')
        \<and> data_listing_id d = Some lid \<and> data_check_in_date d = Some ci
        \<and> data_check_out_date d = Some co
        \<and> find (\<lambda>x. listing_pk x = lid) (listings s) = Some l'
        \<and> dec_exp (price_per_night l') = - 2
        \<and> \<bar>dec_int (price_per_night l') * (co - ci)\<bar> < 10 ^ 10"
  then have t: "total_price b = \<lparr>dec_int = dec_int (price_per_night l') * (co - ci), dec_exp = - 2\<rparr>"
    and n: "nights_booked b = co - ci"
    using createBooking_total_price[of s d b s' lid ci co l'] by simp_all
  show "nights_booked b = co - ci" by (rule n)
  show "total_price b = \<lparr>dec_int = dec_int (price_per_night l') * (co - ci), dec_exp = - 2\<rparr>"
    by (rule t)
  show "dec_val (total_price b) = dec_val (price_per_night l') * of_int (co - ci)"
    using a dec_val_times_int[of "price_per_night l'" "co - ci"] by (simp add: t)
next
  show "ymd2ord 2024 3 4 - ymd2ord 2024 3 1 = 3" by (simp add: ymd_simps)
qed (simp_all add: three_nights_at_100 booking_0301_0304_def)

theorem total_price_exact_within_precision_witness:
  "total_price_for_nights listing_100 3 = Inr \<lparr>dec_int = 30000, dec_exp = - 2\<rparr>
   \<and> dec_val \<lparr>dec_int = 30000, dec_exp = - 2\<rparr> = 300
   \<and> createBooking db_empty (request 1 (ymd2ord 2024 3 1) (ymd2ord 2024 3 4))
       = (Inr booking_0301_0304, db_empty\<lparr>bookings := [booking_0301_0304], booking_seq := 1\<rparr>)
   \<and> nights_booked booking_0301_0304 = 3
   \<and> dec_val (total_price booking_0301_0304) = dec_val (price_per_night listing_100) * 3"
  using total_price_exact_within_precision
    [where l = listing_100 and n = 3 and s = db_empty
       and d = "request 1 (ymd2ord 2024 3 1) (ymd2ord 2024 3 4)"
       and b = booking_0301_0304
       and s' = "db_empty\<lparr>bookings := [booking_0301_0304], booking_seq := 1\<rparr>"
       and lid = 1 and ci = "ymd2ord 2024 3 1" and co = "ymd2ord 2024 3 4"
       and l' = listing_100 and ?d1.0 = "ymd2ord 2024 3 1" and ?d2.0 = "ymd2ord 2024 3 4"]
    three_nights_at_100
  by (simp add: example_defs dec_val_def ymd_simps valid_date_def)

text \<open>
  C5 does not hold for every number of nights: at 1.01 a night, the price for
  \<open>10^28 + 1\<close> nights has 31 digits and is rounded to 28, so it is not the exact
  product.
\<close>

theorem total_price_rounded_beyond_precision:
  "total_price_for_nights
      \<lparr>listing_pk = 1, price_per_night = \<lparr>dec_int = 101, dec_exp = - 2\<rparr>, is_available = True\<rparr>
      10000000000000000000000000001
     = Inr \<lparr>dec_int = 1010000000000000000000000000, dec_exp = 1\<rparr>
   \<and> dec_val \<lparr>dec_int = 1010000000000000000000000000, dec_exp = 1\<rparr>
       \<noteq> dec_val \<lparr>dec_int = 101, dec_exp = - 2\<rparr> * of_int 10000000000000000000000000001"
  by (simp add: decimal_defs Let_def ndigits.simps dec_val_def)

section \<open>Dates in the wrong order\<close>

text \<open>
  C2, at a request whose check-out (2024-03-01) is before its check-in (2024-03-05):
  validation returns the data without an error, the create path stores a booking of
  minus four nights at minus 400.00, and \<open>Booking.clean\<close>, which no step of that path
  calls, is the check that refuses such a booking.
\<close>

theorem reversed_dates_are_stored:
  "BookingSerializer_validate db_empty None (request 1 (ymd2ord 2024 3 5) (ymd2ord 2024 3 1))
     = Inr (request 1 (ymd2ord 2024 3 5) (ymd2ord 2024 3 1))
   \<and> createBooking db_empty (request 1 (ymd2ord 2024 3 5) (ymd2ord 2024 3 1))
     = (Inr booking_0305_0301, db_empty\<lparr>bookings := [booking_0305_0301], booking_seq := 1\<rparr>)
   \<and> nights_booked booking_0305_0301 = - 4
   \<and> clean booking_0305_0301
     = Inl (ModelValidationError ''Check-out date must be after check-in date.'')"
  by (simp add: createBooking_def BookingSerializer_validate_def overlapping_bookings_def
      BookingSerializer_create_def Listing_objects_get_def Booking_objects_create_def
      decimal_defs Let_def ndigits.simps example_defs booking_0305_0301_def ymd_simps
      nights_booked_def clean_def)

section \<open>Double bookings\<close>

text \<open>
  The create path of the serializer keeps the table free of double bookings, when the
  booking is stored for the listing that was validated.
\<close>

lemma createBooking_keeps_invariant:
  assumes inv: "\<not> double_booked s"
    and same: "data_listing d = data_listing_id d" and nz: "data_listing_id d \<noteq> Some 0"
  shows "\<not> double_booked (snd (createBooking s d))"
proof (cases "fst (createBooking s d)")
  case (Inl e)
  then have "snd (createBooking s d) = s" by (rule createBooking_failure_keeps_state)
  with inv show ?thesis by simp
next
  case (Inr b)
  then obtain s' where res: "createBooking s d = (Inr b, s')"
    by (cases "createBooking s d") auto
  then have v: "BookingSerializer_validate s None d = Inr d"
    and c: "BookingSerializer_create s d = (Inr b, s')"
    by (auto simp: createBooking_def BookingSerializer_validate_def
        split: sum.splits option.splits if_splits)
  from c obtain lid ci co where d: "data_listing_id d = Some lid"
      "data_check_in_date d = Some ci" "data_check_out_date d = Some co"
    and b: "listing_id b = lid" "check_in_date b = ci" "check_out_date b = co"
    and s': "bookings s' = b # bookings s"
    using same
    by (auto simp: BookingSerializer_create_def Booking_objects_create_def Let_def
        split: sum.splits option.splits if_splits)
  from v d nz have "overlapping_bookings s None lid ci co = []"
    by (auto simp: BookingSerializer_validate_def split: if_splits option.splits)
  then have free: "\<And>e. e \<in> set (bookings s) \<Longrightarrow> listing_id e = lid \<Longrightarrow> active e \<Longrightarrow>
      \<not> (check_in_date e < co \<and> check_out_date e > ci)"
    by (auto simp: overlapping_bookings_def active_def filter_empty_conv)
  have "\<not> double_booked s'"
    using inv free b unfolding double_booked_def s' overlap_def
    by (auto; metis)
  with res show ?thesis by simp
qed

text \<open>
  C7, at a run of the seeding command: from a table without bookings, two draws
  for the same listing store a confirmed booking from 03-01 to 03-05 and a pending one
  from 03-04 to 03-07. The command checks no overlap, and the table is double booked.
\<close>

theorem seeding_double_books:
  "create_bookings db_empty seed_draws
     = (None, db_empty\<lparr>bookings := seeded_bookings, booking_seq := 2\<rparr>)
   \<and> \<not> double_booked db_empty
   \<and> double_booked (db_empty\<lparr>bookings := seeded_bookings, booking_seq := 2\<rparr>)"
proof (intro conjI)
  show "create_bookings db_empty seed_draws
     = (None, db_empty\<lparr>bookings := seeded_bookings, booking_seq := 2\<rparr>)"
    by (simp add: create_bookings_def seed_draws_def seeded_bookings_def random_choice_def
        random_randint_def Booking_objects_create_def decimal_defs Let_def ndigits.simps
        db_empty_def listing_100_def ymd_simps)
  show "\<not> double_booked db_empty"
    by (simp add: double_booked_def db_empty_def)
  show "double_booked (db_empty\<lparr>bookings := seeded_bookings, booking_seq := 2\<rparr>)"
    by (simp add: double_booked_def seeded_bookings_def db_empty_def active_def overlap_def
        ymd_simps)
qed

section \<open>Reviews\<close>

lemma Review_objects_create_keeps_unique:
  "one_review_per_pair s \<Longrightarrow> one_review_per_pair (snd (Review_objects_create s l u r c))"
  by (auto simp: one_review_per_pair_def Review_objects_create_def Let_def)

lemma createReview_keeps_unique:
  "one_review_per_pair s \<Longrightarrow> one_review_per_pair (snd (createReview s u d))"
  by (auto simp: createReview_def ReviewSerializer_create_def ReviewSerializer_validate_def
      Review_objects_create_keeps_unique split: sum.splits option.splits if_splits)

lemma review_attempts_keep_unique:
  "one_review_per_pair s \<Longrightarrow> one_review_per_pair (review_attempts s reqs)"
  by (induction s reqs rule: review_attempts.induct) (simp_all add: createReview_keeps_unique)

lemma createReview_duplicate:
  assumes "\<exists>x \<in> set (reviews s). review_listing_id x = lid \<and> user_id x = u"
    and "data_review_listing_id d = Some lid"
  shows "createReview s u d =
     (Inl (if lid = 0 then IntegrityError
           else ValidationError ''You have already reviewed this listing.''), s)"
proof -
  from assms(1) have "filter (\<lambda>r. review_listing_id r = lid \<and> user_id r = u) (reviews s) \<noteq> []"
    by (auto simp: filter_empty_conv)
  then show ?thesis using assms
    by (auto simp: createReview_def ReviewSerializer_validate_def ReviewSerializer_create_def
        Review_objects_create_def)
qed

text \<open>
  C6. A review request by a user who has already reviewed the listing is refused and
  nothing is stored: by validation with its message, or, for the listing id zero that
  validation lets through, by the uniqueness constraint of the table. So a table with
  at most one review per listing and user stays so through any sequence of requests,
  in particular one that starts without reviews.
\<close>

theorem one_review_per_listing_and_user:
  "((\<exists>x \<in> set (reviews s). review_listing_id x = lid \<and> user_id x = u)
      \<and> data_review_listing_id d = Some lid \<longrightarrow>
     createReview s u d =
       (Inl (if lid = 0 then IntegrityError
             else ValidationError ''You have already reviewed this listing.''), s))
   \<and> (one_review_per_pair s \<longrightarrow> one_review_per_pair (review_attempts s reqs))
   \<and> one_review_per_pair (review_attempts (s\<lparr>reviews := []\<rparr>) reqs)"
  using createReview_duplicate[of s lid u d] review_attempts_keep_unique[of s reqs]
    review_attempts_keep_unique[of "s\<lparr>reviews := []\<rparr>" reqs]
  by (simp add: one_review_per_pair_def)

theorem one_review_per_listing_and_user_witness:
  "reviews (review_attempts db_empty
      [(2, \<lparr>data_review_listing_id = Some 1, data_rating = 5, data_comment = ''fine''\<rparr>)])
     = [\<lparr>review_listing_id = 1, user_id = 2, rating = 5, comment = ''fine''\<rparr>]
   \<and> createReview
        (review_attempts db_empty
           [(2, \<lparr>data_review_listing_id = Some 1, data_rating = 5, data_comment = ''fine''\<rparr>)])
        2 \<lparr>data_review_listing_id = Some 1, data_rating = 1, data_comment = ''again''\<rparr>
     = (Inl (ValidationError ''You have already reviewed this listing.''),
        review_attempts db_empty
           [(2, \<lparr>data_review_listing_id = Some 1, data_rating = 5, data_comment = ''fine''\<rparr>)])
   \<and> one_review_per_pair (review_attempts db_empty
        [(2, \<lparr>data_review_listing_id = Some 1, data_rating = 5, data_comment = ''fine''\<rparr>),
         (2, \<lparr>data_review_listing_id = Some 1, data_rating = 1, data_comment = ''again''\<rparr>)])"
  using one_review_per_listing_and_user
    [where s = "review_attempts db_empty
           [(2, \<lparr>data_review_listing_id = Some 1, data_rating = 5, data_comment = ''fine''\<rparr>)]"
       and lid = 1 and u = 2
       and d = "\<lparr>data_review_listing_id = Some 1, data_rating = 1, data_comment = ''again''\<rparr>"
       and reqs = "[(2, \<lparr>data_review_listing_id = Some 1, data_rating = 1, data_comment = ''again''\<rparr>)]"]
  by (simp add: createReview_def ReviewSerializer_validate_def ReviewSerializer_create_def
      Review_objects_create_def one_review_per_pair_def db_empty_def listing_100_def Let_def)

end
